theory Spec2Isabelle
  imports Complex_Main
begin

section \<open>FacialRecognition: a shallow embedding of the Python sources\<close>

text \<open>
  The repository is four Python files: \<^verbatim>\<open>face_recognition_system.py\<close> (class
  \<^verbatim>\<open>FaceRecognitionSystem\<close>), \<^verbatim>\<open>register_face.py\<close> (class
  \<^verbatim>\<open>FaceRegistration\<close>), \<^verbatim>\<open>utils.py\<close> and \<^verbatim>\<open>examples.py\<close>.
  Calls into the external libraries (face\_recognition, OpenCV, numpy, pickle, pathlib,
  shutil) are not code of the repository: where a function of the repository calls one,
  the model takes the library function as an argument, or gives it the small behaviour
  written next to its definition.
\<close>

subsection \<open>Exceptions\<close>

text \<open>
  A Python exception is a value; a function that may raise returns \<open>exn + 'a\<close> with
  \<open>Inl\<close> for the exception. \<open>LibraryError\<close> stands for any \<^verbatim>\<open>Exception\<close> raised
  inside an external library, with its message.
\<close>

datatype exn =
    KeyError string
  | ValueError string
  | IndexError
  | ZeroDivisionError
  | FileNotFoundError
  | FileExistsError
  | IsADirectoryError
  | NotADirectoryError
  | SameFileError
  | Cv2Error
  | LibraryError string

subsection \<open>utils.create\_face\_mosaic\<close>

text \<open>
  \<^verbatim>\<open>cols = int(np.ceil(np.sqrt(n_images)))\<close>: the least \<open>c\<close> with \<open>n \<le> c * c\<close>, found
  by a search over \<open>0..n\<close> so that it evaluates; \<open>ceil_sqrt_real\<close> below shows that it is
  the ceiling of the real square root. The square root and the division of the source are
  double-precision operations; the model takes them exactly.
\<close>

definition ceil_sqrt :: "nat \<Rightarrow> nat" where
  "ceil_sqrt n = (case find (\<lambda>c. n \<le> c * c) [0..<Suc n] of Some c \<Rightarrow> c | None \<Rightarrow> n)"

text \<open>\<^verbatim>\<open>rows = int(np.ceil(n_images / cols))\<close>, for \<open>cols > 0\<close>.\<close>

definition ceil_div :: "nat \<Rightarrow> nat \<Rightarrow> nat" where
  "ceil_div n c = (n + c - 1) div c"

text \<open>
  The mosaic array \<^verbatim>\<open>np.zeros((rows * 200, cols * 200, 3))\<close>: its pixel height and width,
  and the blocks written so far, keyed by the pixel coordinates of their top-left corner.
\<close>

record 'img mosaic =
  m_height :: nat
  m_width :: nat
  m_blocks :: "(nat \<times> nat) \<rightharpoonup> 'img"

definition np_zeros :: "nat \<Rightarrow> nat \<Rightarrow> 'img mosaic" where
  "np_zeros h w = \<lparr>m_height = h, m_width = w, m_blocks = Map.empty\<rparr>"

text \<open>The block of image \<open>idx\<close>: \<^verbatim>\<open>row = idx // cols\<close>, \<^verbatim>\<open>col = idx % cols\<close>.\<close>

definition block_of :: "nat \<Rightarrow> nat \<Rightarrow> nat \<times> nat" where
  "block_of cols idx = (idx div cols, idx mod cols)"

text \<open>The slice \<^verbatim>\<open>k*200:(k+1)*200\<close>.\<close>

definition block_slice :: "nat \<Rightarrow> nat \<times> nat" where
  "block_slice k = (k * 200, (k + 1) * 200)"

definition slice_within :: "'img mosaic \<Rightarrow> nat \<times> nat \<Rightarrow> nat \<times> nat \<Rightarrow> bool" where
  "slice_within m rs cs = (snd rs \<le> m_height m \<and> snd cs \<le> m_width m)"

text \<open>
  \<^verbatim>\<open>mosaic[r0:r1, c0:c1] = img\<close> with a 200 by 200 image: numpy clips a slice that
  leaves the array, and the assignment of the full block to the clipped region then raises
  \<^verbatim>\<open>ValueError\<close>.
\<close>

definition assign_block ::
  "'img mosaic \<Rightarrow> nat \<times> nat \<Rightarrow> nat \<times> nat \<Rightarrow> 'img \<Rightarrow> exn + 'img mosaic" where
  "assign_block m rs cs img =
     (if slice_within m rs cs
      then Inr (m\<lparr>m_blocks := (m_blocks m)((fst rs, fst cs) \<mapsto> img)\<rparr>)
      else Inl (ValueError ''could not broadcast input array''))"

text \<open>The loop \<^verbatim>\<open>for idx, img in enumerate(images)\<close>, from index \<open>idx\<close> on.\<close>

fun place_images :: "nat \<Rightarrow> nat \<Rightarrow> 'img list \<Rightarrow> 'img mosaic \<Rightarrow> exn + 'img mosaic" where
  "place_images cols idx [] m = Inr m"
| "place_images cols idx (img # rest) m =
     (if cols = 0 then Inl ZeroDivisionError
      else case assign_block m (block_slice (fst (block_of cols idx)))
                  (block_slice (snd (block_of cols idx))) img of
             Inl e \<Rightarrow> Inl e
           | Inr m' \<Rightarrow> place_images cols (Suc idx) rest m')"

text \<open>
  The images that the first loop collects: \<^verbatim>\<open>cv2.imread\<close> of every path of the glob,
  those that are not \<^verbatim>\<open>None\<close>, each resized to 200 by 200.
\<close>

definition load_mosaic_images ::
  "(string \<Rightarrow> 'img option) \<Rightarrow> ('img \<Rightarrow> 'img) \<Rightarrow> string list \<Rightarrow> 'img list" where
  "load_mosaic_images imread resize200 paths = map resize200 (List.map_filter imread paths)"

text \<open>
  \<^verbatim>\<open>create_face_mosaic\<close> from the collected images on: \<open>Inr None\<close> is the early return
  after "Aucune image trouv\'ee", \<open>Inr (Some m)\<close> the mosaic handed to \<^verbatim>\<open>cv2.imwrite\<close>.
\<close>

definition mosaic_of_images :: "'img list \<Rightarrow> exn + 'img mosaic option" where
  "mosaic_of_images images =
     (if images = [] then Inr None
      else let n_images = length images;
               cols = ceil_sqrt n_images
           in if cols = 0 then Inl ZeroDivisionError
              else let rows = ceil_div n_images cols;
                       mosaic = np_zeros (rows * 200) (cols * 200)
                   in case place_images cols 0 images mosaic of
                        Inl e \<Rightarrow> Inl e
                      | Inr m \<Rightarrow> Inr (Some m))"

definition create_face_mosaic ::
  "(string \<Rightarrow> 'img option) \<Rightarrow> ('img \<Rightarrow> 'img) \<Rightarrow> string list \<Rightarrow> exn + 'img mosaic option" where
  "create_face_mosaic imread resize200 paths =
     mosaic_of_images (load_mosaic_images imread resize200 paths)"

subsection \<open>The pickled blob\<close>

text \<open>
  The object that the repository pickles is a dict with string keys. An entry
  \<open>Encodings es\<close> is the key \<^verbatim>\<open>'encodings'\<close> with the list \<open>es\<close>, \<open>Names ns\<close> the key
  \<^verbatim>\<open>'names'\<close> with the list \<open>ns\<close> (the element types are those of the type hints of
  \<^verbatim>\<open>save_encodings\<close>), and \<open>Other k\<close> any other key \<open>k\<close>. The dict literal
  \<^verbatim>\<open>{'encodings': e, 'names': n}\<close> is \<open>[Encodings e, Names n]\<close>.
\<close>

datatype 'e entry = Encodings "'e list" | Names "string list" | Other string

text \<open>\<^verbatim>\<open>data['encodings']\<close> and \<^verbatim>\<open>data['names']\<close>: a missing key raises \<^verbatim>\<open>KeyError\<close>.\<close>

fun getitem_encodings :: "'e entry list \<Rightarrow> exn + 'e list" where
  "getitem_encodings [] = Inl (KeyError ''encodings'')"
| "getitem_encodings (Encodings es # d) = Inr es"
| "getitem_encodings (x # d) = getitem_encodings d"

fun getitem_names :: "'e entry list \<Rightarrow> exn + string list" where
  "getitem_names [] = Inl (KeyError ''names'')"
| "getitem_names (Names ns # d) = Inr ns"
| "getitem_names (x # d) = getitem_names d"

subsection \<open>The external libraries that FaceRecognitionSystem calls\<close>

text \<open>
  \<open>'e\<close> is a face encoding, \<open>'i\<close> a decoded image, \<open>'b\<close> the bytes of a pickle file.
  \<open>load_image_file\<close> and \<open>face_encodings\<close> are those of face\_recognition and may raise;
  \<open>pickle_dump\<close> gives the bytes written for an object and \<open>pickle_load\<close> the object read
  from bytes (or the exception, also for bytes that hold something else than a dict).
\<close>

record ('e, 'i, 'b) library =
  load_image_file :: "string \<Rightarrow> exn + 'i"
  face_encodings :: "'i \<Rightarrow> exn + 'e list"
  pickle_dump :: "'e entry list \<Rightarrow> 'b"
  pickle_load :: "'b \<Rightarrow> exn + 'e entry list"

subsection \<open>The known-faces directory and the console\<close>

text \<open>
  A directory lists its entries in the order \<^verbatim>\<open>iterdir()\<close> yields them. Only the names of
  files matter here: their content is read by the library alone.
\<close>

datatype node = File | Dir "(string \<times> node) list"

text \<open>One constructor for each \<^verbatim>\<open>print\<close> of \<^verbatim>\<open>load_known_faces\<close> and \<^verbatim>\<open>encode_known_faces\<close>.\<close>

datatype msg =
    MsgLoadingFile
  | MsgFacesLoaded nat
  | MsgCreatingEncodings
  | MsgDirMissing string
  | MsgDirCreated
  | MsgProcessing string
  | MsgImageOk string
  | MsgNoFace string
  | MsgImageError string exn
  | MsgSaved nat
  | MsgNoneEncoded

subsection \<open>face\_recognition\_system.FaceRecognitionSystem\<close>

text \<open>
  The fields of the object (\<open>known_faces_dir\<close> to \<open>encodings_file\<close>) and the part of the
  world its methods touch: the regular files of the working directory by name
  (\<open>fs_files\<close>), the tree at \<open>known_faces_dir\<close> (\<open>None\<close> when the path does not exist),
  the exception that \<^verbatim>\<open>mkdir(exist_ok=True)\<close> raises for a missing \<open>known_faces_dir\<close>, if
  any (\<open>fs_mkdir_error\<close>: \<^verbatim>\<open>FileNotFoundError\<close> when its parent is missing too), and what
  has been printed. Opening \<open>encodings_file\<close>, a plain name in the working directory,
  for writing is taken to succeed.
\<close>

record ('e, 'b) system =
  known_faces_dir :: string
  tolerance :: real
  known_face_encodings :: "'e list"
  known_face_names :: "string list"
  encodings_file :: string
  fs_files :: "string \<rightharpoonup> 'b"
  fs_known_faces :: "node option"
  fs_mkdir_error :: "exn option"
  console :: "msg list"

definition print :: "msg \<Rightarrow> ('e, 'b) system \<Rightarrow> ('e, 'b) system" where
  "print m s = s\<lparr>console := console s @ [m]\<rparr>"

text \<open>\<^verbatim>\<open>str.lower()\<close> on the letters A to Z; no other character lowers to a letter of
  the four extensions.\<close>

definition char_lower :: "char \<Rightarrow> char" where
  "char_lower c =
     (case map_of (zip ''ABCDEFGHIJKLMNOPQRSTUVWXYZ'' ''abcdefghijklmnopqrstuvwxyz'') c of
        Some l \<Rightarrow> l | None \<Rightarrow> c)"

definition str_lower :: "string \<Rightarrow> string" where
  "str_lower s = map char_lower s"

text \<open>
  \<^verbatim>\<open>PurePath.suffix\<close>: with \<open>i\<close> the index of the last dot of the name, the name from
  \<open>i\<close> on when \<open>0 < i < len(name) - 1\<close>, and the empty string otherwise (no dot, a
  leading dot only, or a trailing dot).
\<close>

definition path_suffix :: "string \<Rightarrow> string" where
  "path_suffix name =
     (let tail = takeWhile (\<lambda>c. c \<noteq> CHR ''.'') (rev name)
      in if length tail = length name then []
         else let i = length name - length tail - 1
              in if 0 < i \<and> i < length name - 1 then drop i name else [])"

definition image_extensions :: "string list" where
  "image_extensions = [''.jpg'', ''.jpeg'', ''.png'', ''.bmp'']"

text \<open>\<^verbatim>\<open>image_path.suffix.lower() in image_extensions\<close>\<close>

definition is_image_name :: "string \<Rightarrow> bool" where
  "is_image_name name = (str_lower (path_suffix name) \<in> set image_extensions)"

text \<open>\<^verbatim>\<open>str(image_path)\<close> for \<^verbatim>\<open>known_faces_dir / person / name\<close>.\<close>

definition image_path_str :: "string \<Rightarrow> string \<Rightarrow> string \<Rightarrow> string" where
  "image_path_str dir person name = dir @ ''/'' @ person @ ''/'' @ name"

text \<open>
  The \<^verbatim>\<open>try\<close> block for one image: load, encode, append the first encoding with the
  person's name; any \<^verbatim>\<open>Exception\<close> of the two library calls is caught and printed.
\<close>

definition encode_image ::
  "('e, 'i, 'b) library \<Rightarrow> string \<Rightarrow> string \<Rightarrow> ('e, 'b) system \<Rightarrow> ('e, 'b) system" where
  "encode_image lib person_name name s =
     (case load_image_file lib (image_path_str (known_faces_dir s) person_name name) of
        Inl e \<Rightarrow> print (MsgImageError name e) s
      | Inr img \<Rightarrow>
          (case face_encodings lib img of
             Inl e \<Rightarrow> print (MsgImageError name e) s
           | Inr [] \<Rightarrow> print (MsgNoFace name) s
           | Inr (enc # others) \<Rightarrow>
               print (MsgImageOk name)
                 (s\<lparr>known_face_encodings := known_face_encodings s @ [enc],
                    known_face_names := known_face_names s @ [person_name]\<rparr>)))"

text \<open>The inner loop \<^verbatim>\<open>for image_path in person_dir.iterdir()\<close>.\<close>

fun scan_images ::
  "('e, 'i, 'b) library \<Rightarrow> string \<Rightarrow> string list \<Rightarrow> ('e, 'b) system \<Rightarrow> ('e, 'b) system" where
  "scan_images lib person_name [] s = s"
| "scan_images lib person_name (name # rest) s =
     scan_images lib person_name rest
       (if is_image_name name then encode_image lib person_name name s else s)"

text \<open>The outer loop \<^verbatim>\<open>for person_dir in self.known_faces_dir.iterdir()\<close>.\<close>

fun scan_persons ::
  "('e, 'i, 'b) library \<Rightarrow> (string \<times> node) list \<Rightarrow> ('e, 'b) system \<Rightarrow> ('e, 'b) system" where
  "scan_persons lib [] s = s"
| "scan_persons lib ((person_name, File) # rest) s = scan_persons lib rest s"
| "scan_persons lib ((person_name, Dir children) # rest) s =
     scan_persons lib rest
       (scan_images lib person_name (map fst children) (print (MsgProcessing person_name) s))"

text \<open>The last statement of \<^verbatim>\<open>encode_known_faces\<close>: \<^verbatim>\<open>if self.known_face_encodings:\<close>
  dump the two lists, else say that nothing was encoded.\<close>

definition save_known_faces ::
  "('e, 'i, 'b) library \<Rightarrow> ('e, 'b) system \<Rightarrow> ('e, 'b) system" where
  "save_known_faces lib s =
     (if known_face_encodings s \<noteq> []
      then print (MsgSaved (length (known_face_encodings s)))
             (s\<lparr>fs_files := (fs_files s)(encodings_file s \<mapsto>
                  pickle_dump lib [Encodings (known_face_encodings s),
                                   Names (known_face_names s)])\<rparr>)
      else print MsgNoneEncoded s)"

text \<open>
  A method returns the exception that leaves it, if any, and the state it leaves behind.
  Iterating a \<open>known_faces_dir\<close> that is a regular file raises \<^verbatim>\<open>NotADirectoryError\<close>.
\<close>

definition encode_known_faces ::
  "('e, 'i, 'b) library \<Rightarrow> ('e, 'b) system \<Rightarrow> exn option \<times> ('e, 'b) system" where
  "encode_known_faces lib s =
     (case fs_known_faces s of
        None \<Rightarrow>
          (let s1 = print (MsgDirMissing (known_faces_dir s)) s
           in case fs_mkdir_error s of
                Some e \<Rightarrow> (Some e, s1)
              | None \<Rightarrow> (None, print MsgDirCreated (s1\<lparr>fs_known_faces := Some (Dir [])\<rparr>)))
      | Some File \<Rightarrow> (Some NotADirectoryError, s)
      | Some (Dir persons) \<Rightarrow> (None, save_known_faces lib (scan_persons lib persons s)))"

definition load_known_faces ::
  "('e, 'i, 'b) library \<Rightarrow> ('e, 'b) system \<Rightarrow> exn option \<times> ('e, 'b) system" where
  "load_known_faces lib s =
     (case fs_files s (encodings_file s) of
        Some bytes \<Rightarrow>
          (let s1 = print MsgLoadingFile s
           in case pickle_load lib bytes of
                Inl e \<Rightarrow> (Some e, s1)
              | Inr data \<Rightarrow>
                  (case getitem_encodings data of
                     Inl e \<Rightarrow> (Some e, s1)
                   | Inr es \<Rightarrow>
                       (let s2 = s1\<lparr>known_face_encodings := es\<rparr>
                        in case getitem_names data of
                             Inl e \<Rightarrow> (Some e, s2)
                           | Inr ns \<Rightarrow>
                               (None, print (MsgFacesLoaded (length ns))
                                        (s2\<lparr>known_face_names := ns\<rparr>)))))
      | None \<Rightarrow> encode_known_faces lib (print MsgCreatingEncodings s))"

text \<open>\<^verbatim>\<open>__init__\<close>: the fresh object in the world \<open>files\<close>, \<open>tree\<close>, \<open>mkdir_error\<close>,
  then \<^verbatim>\<open>load_known_faces\<close>.\<close>

definition new_system ::
  "string \<Rightarrow> real \<Rightarrow> (string \<rightharpoonup> 'b) \<Rightarrow> node option \<Rightarrow> exn option \<Rightarrow>
   ('e, 'b) system" where
  "new_system dir tol files tree mkdir_error =
     \<lparr>known_faces_dir = dir, tolerance = tol, known_face_encodings = [],
      known_face_names = [], encodings_file = ''face_encodings.pkl'',
      fs_files = files, fs_known_faces = tree, fs_mkdir_error = mkdir_error,
      console = []\<rparr>"

definition init ::
  "('e, 'i, 'b) library \<Rightarrow> string \<Rightarrow> real \<Rightarrow> (string \<rightharpoonup> 'b) \<Rightarrow> node option \<Rightarrow>
   exn option \<Rightarrow> exn option \<times> ('e, 'b) system" where
  "init lib dir tol files tree mkdir_error =
     load_known_faces lib (new_system dir tol files tree mkdir_error)"

subsection \<open>FaceRecognitionSystem.recognize\_faces\_in\_frame\<close>

text \<open>
  The library calls of the method: \<open>detect_encodings\<close> is the chain \<^verbatim>\<open>cvtColor\<close>,
  \<^verbatim>\<open>resize\<close>, \<^verbatim>\<open>face_locations\<close>, \<^verbatim>\<open>face_encodings\<close> that yields the encodings of the faces
  of a frame \<open>'f\<close>; \<open>compare_faces\<close> and \<open>face_distance\<close> are those of face\_recognition;
  \<open>format_confidence\<close> is the float format \<^verbatim>\<open>{confidence:.1f}\<close>. The rectangles and texts
  that the method then draws on the frame with cv2 are not modelled: the model returns
  the list \<^verbatim>\<open>face_names\<close>.
\<close>

record ('e, 'f) recognizer =
  detect_encodings :: "'f \<Rightarrow> 'e list"
  compare_faces :: "'e list \<Rightarrow> 'e \<Rightarrow> real \<Rightarrow> bool list"
  face_distance :: "'e list \<Rightarrow> 'e \<Rightarrow> real list"
  format_confidence :: "real \<Rightarrow> string"

text \<open>\<^verbatim>\<open>np.argmin\<close>: the index of the first occurrence of the minimum; it raises
  \<^verbatim>\<open>ValueError\<close> on an empty array.\<close>

definition np_argmin :: "real list \<Rightarrow> exn + nat" where
  "np_argmin ds =
     (if ds = [] then Inl (ValueError ''attempt to get argmin of an empty sequence'')
      else Inr (length (takeWhile (\<lambda>d. d \<noteq> Min (set ds)) ds)))"

text \<open>\<^verbatim>\<open>xs[i]\<close> for a list and an index that is not negative.\<close>

definition py_index :: "'a list \<Rightarrow> nat \<Rightarrow> exn + 'a" where
  "py_index xs i = (if i < length xs then Inr (xs ! i) else Inl IndexError)"

text \<open>The body of the loop \<^verbatim>\<open>for face_encoding in face_encodings\<close>: the name appended
  for one encoding.\<close>

definition label_face :: "('e, 'f) recognizer \<Rightarrow> ('e, 'b) system \<Rightarrow> 'e \<Rightarrow> exn + string" where
  "label_face lib s face_encoding =
     (let matches = compare_faces lib (known_face_encodings s) face_encoding (tolerance s);
          name = ''Inconnu''
      in if known_face_encodings s \<noteq> []
         then let face_distances = face_distance lib (known_face_encodings s) face_encoding
              in case np_argmin face_distances of
                   Inl e \<Rightarrow> Inl e
                 | Inr best_match_index \<Rightarrow>
                     (case py_index matches best_match_index of
                        Inl e \<Rightarrow> Inl e
                      | Inr matched \<Rightarrow>
                          if matched
                          then (case py_index (known_face_names s) best_match_index of
                                  Inl e \<Rightarrow> Inl e
                                | Inr known_name \<Rightarrow>
                                    (case py_index face_distances best_match_index of
                                       Inl e \<Rightarrow> Inl e
                                     | Inr d \<Rightarrow>
                                         Inr (known_name @ '' ('' @
                                              format_confidence lib ((1 - d) * 100) @ ''%)'')))
                          else Inr name)
         else Inr name)"

fun label_faces :: "('e, 'f) recognizer \<Rightarrow> ('e, 'b) system \<Rightarrow> 'e list \<Rightarrow> exn + string list" where
  "label_faces lib s [] = Inr []"
| "label_faces lib s (face_encoding # rest) =
     (case label_face lib s face_encoding of
        Inl e \<Rightarrow> Inl e
      | Inr name \<Rightarrow>
          (case label_faces lib s rest of
             Inl e \<Rightarrow> Inl e
           | Inr face_names \<Rightarrow> Inr (name # face_names)))"

definition recognize_faces_in_frame ::
  "('e, 'f) recognizer \<Rightarrow> ('e, 'b) system \<Rightarrow> 'f \<Rightarrow> exn + string list" where
  "recognize_faces_in_frame lib s frame = label_faces lib s (detect_encodings lib frame)"

text \<open>
  The label in words, for the statement about the method: the known name at the index
  \<open>best\<close> followed by the confidence in parentheses when the library marks that index as a
  match, and "Inconnu" otherwise (\<open>spec_label\<close>); \<open>best\<close> is the first index of the minimal
  distance (\<open>first_argmin\<close>); the library returns one match flag and one distance for each
  known encoding (\<open>library_agrees\<close>).
\<close>

definition spec_label ::
  "('e, 'f) recognizer \<Rightarrow> ('e, 'b) system \<Rightarrow> 'e \<Rightarrow> nat \<Rightarrow> string" where
  "spec_label lib s face_encoding best =
     (if compare_faces lib (known_face_encodings s) face_encoding (tolerance s) ! best
      then known_face_names s ! best @ '' ('' @
           format_confidence lib
             ((1 - face_distance lib (known_face_encodings s) face_encoding ! best) * 100) @ ''%)''
      else ''Inconnu'')"

definition first_argmin :: "real list \<Rightarrow> nat \<Rightarrow> bool" where
  "first_argmin ds i =
     (i < length ds \<and> (\<forall>j < length ds. ds ! i \<le> ds ! j) \<and> (\<forall>j < i. ds ! i < ds ! j))"

definition labelled_as_specified ::
  "('e, 'f) recognizer \<Rightarrow> ('e, 'b) system \<Rightarrow> 'e \<Rightarrow> string \<Rightarrow> bool" where
  "labelled_as_specified lib s face_encoding name =
     (\<exists>best. first_argmin (face_distance lib (known_face_encodings s) face_encoding) best \<and>
             name = spec_label lib s face_encoding best)"

definition library_agrees :: "('e, 'f) recognizer \<Rightarrow> ('e, 'b) system \<Rightarrow> 'e \<Rightarrow> bool" where
  "library_agrees lib s face_encoding =
     (length (compare_faces lib (known_face_encodings s) face_encoding (tolerance s)) =
        length (known_face_encodings s) \<and>
      length (face_distance lib (known_face_encodings s) face_encoding) =
        length (known_face_encodings s))"

subsection \<open>What the scan of the known-faces directory should append\<close>

text \<open>
  A second description of the scan, after the words of the specification and not after
  the iteration: an image contributes the first face the encoder finds, with the name of its
  directory, and nothing when it cannot be read or shows no face; a person's directory
  contributes its entries with an image extension, in listing order; an entry of
  \<open>known_faces_dir\<close> that is not a directory contributes nothing.
\<close>

definition spec_image_contribution ::
  "('e, 'i, 'b) library \<Rightarrow> string \<Rightarrow> string \<Rightarrow> string \<Rightarrow> ('e \<times> string) list" where
  "spec_image_contribution lib dir person name =
     (case load_image_file lib (image_path_str dir person name) of
        Inl e \<Rightarrow> []
      | Inr img \<Rightarrow>
          (case face_encodings lib img of
             Inl e \<Rightarrow> []
           | Inr faces \<Rightarrow> (if faces = [] then [] else [(hd faces, person)])))"

definition spec_person_contribution ::
  "('e, 'i, 'b) library \<Rightarrow> string \<Rightarrow> string \<times> node \<Rightarrow> ('e \<times> string) list" where
  "spec_person_contribution lib dir entry =
     (case snd entry of
        File \<Rightarrow> []
      | Dir children \<Rightarrow>
          concat (map (spec_image_contribution lib dir (fst entry))
                    (filter is_image_name (map fst children))))"

definition spec_contributions ::
  "('e, 'i, 'b) library \<Rightarrow> string \<Rightarrow> (string \<times> node) list \<Rightarrow> ('e \<times> string) list" where
  "spec_contributions lib dir persons = concat (map (spec_person_contribution lib dir) persons)"

subsection \<open>utils: load\_image, save\_encodings, load\_encodings\<close>

text \<open>\<^verbatim>\<open>cv2.imread\<close> returns \<^verbatim>\<open>None\<close> for a file it cannot read; \<^verbatim>\<open>load_image\<close> then
  raises a \<^verbatim>\<open>ValueError\<close> with its own message.\<close>

definition load_image :: "(string \<Rightarrow> 'i option) \<Rightarrow> string \<Rightarrow> exn + 'i" where
  "load_image imread image_path =
     (case imread image_path of
        None \<Rightarrow> Inl (ValueError (''Impossible de charger l'image: '' @ image_path))
      | Some img \<Rightarrow> Inr img)"

text \<open>
  \<open>open_wb\<close> gives the exception that \<^verbatim>\<open>open(filename, 'wb')\<close> raises, if any
  (\<^verbatim>\<open>FileNotFoundError\<close> for an empty name or a missing directory, \<^verbatim>\<open>IsADirectoryError\<close>
  for a directory); the files are the regular files by name. \<^verbatim>\<open>load_encodings\<close> opens
  for reading, which raises \<^verbatim>\<open>FileNotFoundError\<close> when there is no such file.
\<close>

definition save_encodings ::
  "('e, 'i, 'b) library \<Rightarrow> (string \<Rightarrow> exn option) \<Rightarrow> 'e list \<Rightarrow> string list \<Rightarrow> string \<Rightarrow>
   (string \<rightharpoonup> 'b) \<Rightarrow> exn + (string \<rightharpoonup> 'b)" where
  "save_encodings lib open_wb encodings names filename files =
     (let data = [Encodings encodings, Names names]
      in case open_wb filename of
           Some e \<Rightarrow> Inl e
         | None \<Rightarrow> Inr (files(filename \<mapsto> pickle_dump lib data)))"


subsection \<open>utils.resize\_image\<close>

text \<open>An image is its \<^verbatim>\<open>shape[:2]\<close> and its pixels, which only cv2 reads.\<close>

record 'px image =
  img_height :: nat
  img_width :: nat
  img_pixels :: 'px

text \<open>
  \<^verbatim>\<open>cv2.resize(image, (new_width, new_height))\<close>: OpenCV rejects a target size with a
  dimension that is not positive (\<^verbatim>\<open>cv2.error\<close>); otherwise the result has the size asked
  for, with pixels that the library interpolates.
\<close>

definition cv2_resize ::
  "('px image \<Rightarrow> nat \<Rightarrow> nat \<Rightarrow> 'px) \<Rightarrow> 'px image \<Rightarrow> int \<times> int \<Rightarrow> exn + 'px image" where
  "cv2_resize interpolate img dsize =
     (if fst dsize \<le> 0 \<or> snd dsize \<le> 0 then Inl Cv2Error
      else Inr \<lparr>img_height = nat (snd dsize), img_width = nat (fst dsize),
                img_pixels = interpolate img (nat (fst dsize)) (nat (snd dsize))\<rparr>)"

text \<open>\<^verbatim>\<open>int(x)\<close> truncates towards zero.\<close>

definition py_int :: "rat \<Rightarrow> int" where
  "py_int q = (if 0 \<le> q then \<lfloor>q\<rfloor> else \<lceil>q\<rceil>)"

text \<open>
  The two quotients and the two products of the source are double-precision operations on
  the integers of the shape; the model computes them exactly, over the rationals. The two
  agree where every quotient and product is a double, as for the image evaluated below;
  elsewhere the rounding can cost one pixel (a 1078 by 600 image gets the width 799 in
  double precision and 800 here). A zero width or height raises \<^verbatim>\<open>ZeroDivisionError\<close> at
  the first division.
\<close>

definition resize_image ::
  "('px image \<Rightarrow> nat \<Rightarrow> nat \<Rightarrow> 'px) \<Rightarrow> 'px image \<Rightarrow> int \<Rightarrow> int \<Rightarrow> exn + 'px image" where
  "resize_image interpolate img max_width max_height =
     (let height = img_height img; width = img_width img
      in if width = 0 \<or> height = 0 then Inl ZeroDivisionError
         else let ratio = min (of_int max_width / of_nat width :: rat)
                              (of_int max_height / of_nat height)
              in if ratio < 1
                 then let new_width = py_int (of_nat width * ratio);
                          new_height = py_int (of_nat height * ratio)
                      in cv2_resize interpolate img (new_width, new_height)
                 else Inr img)"

subsection \<open>register\_face.FaceRegistration.add\_from\_file\<close>

text \<open>
  The method works on paths, so the file system is a map from paths to what is there. A
  path is the list of its components below the working directory, the empty path being
  the working directory itself; \<open>person_name\<close> is the path that pathlib parses from the
  string (one component for a plain name, none for the empty string). Absolute paths,
  \<^verbatim>\<open>..\<close> and links are outside this model, and the two prints are left out.
\<close>

type_synonym path = "string list"











subsection \<open>Auxiliary notions for the statements\<close>

text \<open>The exception that leaves the two library calls of the \<^verbatim>\<open>try\<close> block for the
  image at \<open>path\<close>, if any.\<close>

definition image_exception :: "('e, 'i, 'b) library \<Rightarrow> string \<Rightarrow> exn option" where
  "image_exception lib path =
     (case load_image_file lib path of
        Inl e \<Rightarrow> Some e
      | Inr img \<Rightarrow> (case face_encodings lib img of Inl e \<Rightarrow> Some e | Inr faces \<Rightarrow> None))"

text \<open>What a scan of the tree of \<open>s\<close> should append: nothing when
  \<open>known_faces_dir\<close> is missing or is not a directory.\<close>

definition spec_produced :: "('e, 'i, 'b) library \<Rightarrow> ('e, 'b) system \<Rightarrow> ('e \<times> string) list" where
  "spec_produced lib s =
     (case fs_known_faces s of
        Some (Dir persons) \<Rightarrow> spec_contributions lib (known_faces_dir s) persons
      | _ \<Rightarrow> [])"



subsection \<open>Example inputs\<close>

text \<open>
  A library whose encodings and images are numbers and whose pickle bytes are the object
  itself: two images of Jean can be read, the first shows two faces and the second none;
  every other path is not an image the library can read.
\<close>

definition demo_library :: "(nat, nat, nat entry list) library" where
  "demo_library =
     \<lparr>load_image_file = (\<lambda>p. if p = ''known_faces/Jean/a.JPG'' then Inr 1
                              else if p = ''known_faces/Jean/b.png'' then Inr 2
                              else Inl (LibraryError ''cannot identify image file'')),
      face_encodings = (\<lambda>i. if i = 1 then Inr [7, 8] else Inr []),
      pickle_dump = (\<lambda>d. d),
      pickle_load = Inr\<rparr>"

definition demo_persons :: "(string \<times> node) list" where
  "demo_persons =
     [(''Jean'', Dir [(''a.JPG'', File), (''notes.txt'', File), (''b.png'', File),
                     (''c.bmp'', File)]),
      (''readme.jpg'', File),
      (''Marie'', Dir [(''m.jpeg'', File)])]"

definition demo_system :: "(nat, nat entry list) system" where
  "demo_system = new_system ''known_faces'' (6 / 10) Map.empty (Some (Dir demo_persons)) None"

text \<open>A working directory that holds an encodings file, one that holds none, one whose
  encodings file stores lists of different lengths, an \<^verbatim>\<open>open\<close> that fails on the empty
  name and on the directory \<^verbatim>\<open>known_faces\<close>, an \<^verbatim>\<open>imread\<close> that reads nothing, and an
  object that has loaded one face and then finds neither an encodings file nor a person in
  the known-faces directory.\<close>

definition demo_files :: "string \<rightharpoonup> nat entry list" where
  "demo_files = [''face_encodings.pkl'' \<mapsto> [Encodings [5], Names [''Zoe'']]]"

definition demo_cached_system :: "(nat, nat entry list) system" where
  "demo_cached_system =
     new_system ''known_faces'' (6 / 10) demo_files (Some (Dir demo_persons)) None"

definition demo_open :: "string \<Rightarrow> exn option" where
  "demo_open filename =
     (if filename = [] then Some FileNotFoundError
      else if filename = ''known_faces'' then Some IsADirectoryError
      else None)"

definition no_files :: "string \<rightharpoonup> nat entry list" where
  "no_files = Map.empty"

definition demo_bad_files :: "string \<rightharpoonup> nat entry list" where
  "demo_bad_files = no_files(''face_encodings.pkl'' \<mapsto> [Encodings [7], Names []])"

definition imread_unreadable :: "string \<Rightarrow> nat option" where
  "imread_unreadable path = None"


text \<open>A recogniser on numbers: a frame is the list of its encodings, the distance of two
  encodings is a tenth of their difference, and a registry of two known faces.\<close>

definition demo_recognizer :: "(nat, nat list) recognizer" where
  "demo_recognizer =
     \<lparr>detect_encodings = (\<lambda>frame. frame),
      compare_faces = (\<lambda>known enc tol. map (\<lambda>k. \<bar>real k - real enc\<bar> / 10 \<le> tol) known),
      face_distance = (\<lambda>known enc. map (\<lambda>k. \<bar>real k - real enc\<bar> / 10) known),
      format_confidence = (\<lambda>c. if c = 70 then ''70.0'' else ''--.-'')\<rparr>"

definition demo_registry :: "(nat, nat entry list) system" where
  "demo_registry =
     (new_system ''known_faces'' (6 / 10) no_files None None)
       \<lparr>known_face_encodings := [2, 9], known_face_names := [''Jean'', ''Marie'']\<rparr>"


definition demo_interpolate :: "unit image \<Rightarrow> nat \<Rightarrow> nat \<Rightarrow> unit" where
  "demo_interpolate img w h = ()"

definition thin_image :: "unit image" where
  "thin_image = \<lparr>img_height = 1, img_width = 1600, img_pixels = ()\<rparr>"

section \<open>Properties\<close>

subsection \<open>The grid of create\_face\_mosaic\<close>

lemma find_upt_least:
  "find P [0..<m] = Some c \<Longrightarrow> P c \<and> c < m \<and> (\<forall>d<c. \<not> P d)"
  by (auto simp: find_Some_iff)

lemma find_upt_None: "find P [0..<m] = None \<Longrightarrow> \<forall>d<m. \<not> P d"
  by (auto simp: find_None_iff)

lemma ceil_sqrt_upper: "n \<le> ceil_sqrt n * ceil_sqrt n"
proof (cases "find (\<lambda>c. n \<le> c * c) [0..<Suc n]")
  case None
  then show ?thesis unfolding ceil_sqrt_def by (cases n) simp_all
next
  case (Some c)
  from find_upt_least [OF this] show ?thesis unfolding ceil_sqrt_def Some by simp
qed

lemma ceil_sqrt_least: "d < ceil_sqrt n \<Longrightarrow> d * d < n"
proof (cases "find (\<lambda>c. n \<le> c * c) [0..<Suc n]")
  case None
  from find_upt_None [OF this] have "\<not> n \<le> n * n" by blast
  then show ?thesis by (cases n) simp_all
next
  case (Some c)
  assume "d < ceil_sqrt n"
  then have "d < c" unfolding ceil_sqrt_def Some by simp
  with find_upt_least [OF Some] show ?thesis by (simp add: not_le)
qed

lemma ceil_sqrt_pos: "0 < n \<Longrightarrow> 0 < ceil_sqrt n"
  using ceil_sqrt_upper [of n] by (cases "ceil_sqrt n") simp_all

text \<open>The search computes \<^verbatim>\<open>ceil(sqrt(n))\<close> over the reals.\<close>

lemma ceil_sqrt_real: "ceil_sqrt n = nat \<lceil>sqrt (real n)\<rceil>"
proof -
  let ?c = "ceil_sqrt n"
  have up: "sqrt (real n) \<le> real ?c"
  proof -
    have "real n \<le> real (?c * ?c)"
      using ceil_sqrt_upper [of n] by (simp only: of_nat_le_iff)
    then have "real n \<le> real ?c * real ?c" by (simp only: of_nat_mult)
    then have "sqrt (real n) \<le> sqrt (real ?c * real ?c)" by (rule real_sqrt_le_mono)
    then show ?thesis by simp
  qed
  have lo: "real ?c - 1 < sqrt (real n)"
  proof (cases ?c)
    case 0
    have "0 \<le> sqrt (real n)" by simp
    then show ?thesis using 0 by linarith
  next
    case (Suc d)
    then have "d * d < n" using ceil_sqrt_least [of d n] by simp
    then have "real (d * d) < real n" by (simp only: of_nat_less_iff)
    then have "real d * real d < real n" by (simp only: of_nat_mult)
    then have "sqrt (real d * real d) < sqrt (real n)" by (rule real_sqrt_less_mono)
    then show ?thesis using Suc by simp
  qed
  have "\<lceil>sqrt (real n)\<rceil> = int ?c"
    by (rule ceiling_unique) (use lo up in simp_all)
  then show ?thesis by simp
qed

lemma ceil_div_cover: "0 < c \<Longrightarrow> n \<le> ceil_div n c * c"
proof -
  assume c: "0 < c"
  have "n + c - 1 = (n + c - 1) div c * c + (n + c - 1) mod c" by simp
  moreover have "(n + c - 1) mod c \<le> c - 1"
    using c by (simp add: less_Suc_eq_le [symmetric])
  ultimately have "n + c - 1 \<le> ceil_div n c * c + (c - 1)"
    unfolding ceil_div_def by linarith
  then show ?thesis using c by linarith
qed

lemma ceil_div_tight: "0 < c \<Longrightarrow> 0 < n \<Longrightarrow> (ceil_div n c - 1) * c < n"
proof -
  assume c: "0 < c" and n: "0 < n"
  have "(n + c - 1) div c * c \<le> n + c - 1" by simp
  then have "ceil_div n c * c \<le> n + c - 1" by (simp add: ceil_div_def)
  moreover have "1 \<le> ceil_div n c"
    using c n by (simp add: ceil_div_def Suc_le_eq div_greater_zero_iff)
  ultimately show ?thesis using c n by (cases "ceil_div n c") simp_all
qed

text \<open>The integer formula computes \<^verbatim>\<open>ceil(n / cols)\<close> over the reals.\<close>

lemma ceil_div_real: "0 < c \<Longrightarrow> ceil_div n c = nat \<lceil>real n / real c\<rceil>"
proof (cases "n = 0")
  case True
  assume "0 < c"
  then show ?thesis using True by (simp add: ceil_div_def)
next
  case False
  assume c: "0 < c"
  let ?r = "ceil_div n c"
  have up: "real n / real c \<le> real ?r"
  proof -
    have "real n \<le> real (?r * c)"
      using ceil_div_cover [OF c, of n] by (simp only: of_nat_le_iff)
    then show ?thesis using c by (simp add: field_simps)
  qed
  have lo: "real ?r - 1 < real n / real c"
  proof -
    have pos: "1 \<le> ?r"
      using c False by (simp add: ceil_div_def Suc_le_eq div_greater_zero_iff)
    have "real ((?r - 1) * c) < real n"
      using ceil_div_tight [OF c, of n] False by (simp only: of_nat_less_iff)
    then have "(real ?r - 1) * real c < real n" using pos by simp
    then show ?thesis using c by (simp add: field_simps)
  qed
  have "\<lceil>real n / real c\<rceil> = int ?r"
    by (rule ceiling_unique) (use lo up in simp_all)
  then show ?thesis by simp
qed

lemma block_in_grid:
  assumes "0 < (cols::nat)" and "n \<le> rows * cols" and "idx < n"
  shows "idx div cols < rows" and "idx mod cols < cols"
proof -
  from assms(3,2) have "idx < rows * cols" by (rule less_le_trans)
  then show "idx div cols < rows"
    using assms(1) by (simp add: less_mult_imp_div_less)
  show "idx mod cols < cols" using assms(1) by simp
qed

lemma block_slice_within:
  assumes "row < rows" and "col < cols" and "m_height m = rows * 200" and "m_width m = cols * 200"
  shows "slice_within m (block_slice row) (block_slice col)"
  using assms by (simp add: slice_within_def block_slice_def)

lemma place_images_within:
  "0 < cols \<Longrightarrow> idx + length imgs \<le> rows * cols \<Longrightarrow>
   m_height m = rows * 200 \<Longrightarrow> m_width m = cols * 200 \<Longrightarrow>
   \<exists>m'. place_images cols idx imgs m = Inr m'"
proof (induction imgs arbitrary: idx m)
  case Nil
  then show ?case by simp
next
  case (Cons img rest)
  from Cons.prems(2) have lt: "idx < idx + length (img # rest)" and le: "idx + length (img # rest) \<le> rows * cols"
    by simp_all
  have inb: "idx div cols < rows" "idx mod cols < cols"
    using block_in_grid [OF Cons.prems(1) le lt] by simp_all
  have w: "slice_within m (block_slice (idx div cols)) (block_slice (idx mod cols))"
    by (rule block_slice_within [OF inb Cons.prems(3,4)])
  let ?m = "m\<lparr>m_blocks := (m_blocks m)((fst (block_slice (idx div cols)), fst (block_slice (idx mod cols))) \<mapsto> img)\<rparr>"
  have "\<exists>m'. place_images cols (Suc idx) rest ?m = Inr m'"
    by (rule Cons.IH) (use Cons.prems in simp_all)
  then show ?case using Cons.prems(1) w by (simp add: assign_block_def block_of_def)
qed

text \<open>
  Claim C9. For a non-empty list of \<open>n\<close> loaded images, with \<open>cols = ceil (sqrt n)\<close> and
  \<open>rows = ceil (n / cols)\<close>: \<open>rows * cols \<ge> n\<close>; every index \<open>idx < n\<close> maps to a
  block \<open>(idx div cols, idx mod cols)\<close> inside the \<open>rows\<close> by \<open>cols\<close> grid; the
  200 by 200 slice of that block lies within the allocated array; and the loop of writes
  raises nothing, so the function reaches the mosaic.
\<close>

theorem create_face_mosaic_blocks_in_bounds:
  "images \<noteq> [] \<Longrightarrow> idx < length images \<Longrightarrow>
   (let n = length images; cols = ceil_sqrt n; rows = ceil_div n cols;
        row = fst (block_of cols idx); col = snd (block_of cols idx)
    in n \<le> rows * cols \<and> row < rows \<and> col < cols \<and>
       slice_within (np_zeros (rows * 200) (cols * 200) :: 'img mosaic)
         (block_slice row) (block_slice col)) \<and>
   (\<exists>m. mosaic_of_images (images :: 'img list) = Inr (Some m))"
proof -
  assume ne: "images \<noteq> []" and idx: "idx < length images"
  let ?n = "length images"
  let ?cols = "ceil_sqrt ?n"
  let ?rows = "ceil_div ?n ?cols"
  from ne have n: "0 < ?n" by simp
  have c: "0 < ?cols" by (rule ceil_sqrt_pos [OF n])
  have cover: "?n \<le> ?rows * ?cols" by (rule ceil_div_cover [OF c])
  have inb: "idx div ?cols < ?rows" "idx mod ?cols < ?cols"
    using block_in_grid [OF c cover idx] by simp_all
  have w: "slice_within (np_zeros (?rows * 200) (?cols * 200) :: 'img mosaic)
             (block_slice (idx div ?cols)) (block_slice (idx mod ?cols))"
    by (rule block_slice_within [OF inb]) (simp_all add: np_zeros_def)
  have "\<exists>m'. place_images ?cols 0 images (np_zeros (?rows * 200) (?cols * 200) :: 'img mosaic) = Inr m'"
    by (rule place_images_within [OF c, where rows = ?rows]) (use cover in \<open>simp_all add: np_zeros_def\<close>)
  then have ok: "\<exists>m. mosaic_of_images images = Inr (Some m)"
    using ne c by (auto simp: mosaic_of_images_def Let_def)
  show ?thesis using cover inb w ok by (simp add: Let_def block_of_def)
qed

theorem create_face_mosaic_blocks_in_bounds_witness:
  "[10, 20, 30 :: nat] \<noteq> [] \<and> (2::nat) < length [10, 20, 30 :: nat] \<and>
   ceil_sqrt 3 = 2 \<and> ceil_div 3 2 = 2 \<and> block_of 2 2 = (1, 0) \<and>
   slice_within (np_zeros 400 400 :: nat mosaic) (block_slice 1) (block_slice 0) \<and>
   (\<exists>m. mosaic_of_images [10, 20, 30 :: nat] = Inr (Some m))"
proof -
  have h1: "[10, 20, 30 :: nat] \<noteq> []" by simp
  have h2: "(2::nat) < length [10, 20, 30 :: nat]" by simp
  have e1: "ceil_sqrt 3 = 2" by code_simp
  have e2: "ceil_div 3 2 = 2" by code_simp
  have e3: "block_of 2 2 = (1, 0)" by code_simp
  have l: "length [10, 20, 30 :: nat] = 3" by simp
  show ?thesis
    using create_face_mosaic_blocks_in_bounds [OF h1 h2]
    unfolding l Let_def e1 e2 e3 by simp
qed

subsection \<open>The scan of encode\_known\_faces\<close>

lemma print_fields [simp]:
  "known_faces_dir (print m s) = known_faces_dir s"
  "known_face_encodings (print m s) = known_face_encodings s"
  "known_face_names (print m s) = known_face_names s"
  "encodings_file (print m s) = encodings_file s"
  "fs_files (print m s) = fs_files s"
  "fs_known_faces (print m s) = fs_known_faces s"
  "tolerance (print m s) = tolerance s"
  "console (print m s) = console s @ [m]"
  by (simp_all add: print_def)

lemma encode_image_frame [simp]:
  "known_faces_dir (encode_image lib p n s) = known_faces_dir s"
  "encodings_file (encode_image lib p n s) = encodings_file s"
  "fs_files (encode_image lib p n s) = fs_files s"
  "fs_known_faces (encode_image lib p n s) = fs_known_faces s"
  "tolerance (encode_image lib p n s) = tolerance s"
  by (simp_all add: encode_image_def split: sum.splits list.splits)

lemma encode_image_lists:
  "known_face_encodings (encode_image lib p n s) =
     known_face_encodings s @ map fst (spec_image_contribution lib (known_faces_dir s) p n)"
  "known_face_names (encode_image lib p n s) =
     known_face_names s @ map snd (spec_image_contribution lib (known_faces_dir s) p n)"
  by (simp_all add: encode_image_def spec_image_contribution_def split: sum.splits list.splits)

lemma scan_images_frame [simp]:
  "known_faces_dir (scan_images lib p ns s) = known_faces_dir s"
  "encodings_file (scan_images lib p ns s) = encodings_file s"
  "fs_files (scan_images lib p ns s) = fs_files s"
  "fs_known_faces (scan_images lib p ns s) = fs_known_faces s"
  "tolerance (scan_images lib p ns s) = tolerance s"
  by (induction ns arbitrary: s; simp)+

lemma scan_images_lists:
  "known_face_encodings (scan_images lib p ns s) =
     known_face_encodings s @
     map fst (concat (map (spec_image_contribution lib (known_faces_dir s) p) (filter is_image_name ns)))"
  "known_face_names (scan_images lib p ns s) =
     known_face_names s @
     map snd (concat (map (spec_image_contribution lib (known_faces_dir s) p) (filter is_image_name ns)))"
  by (induction ns arbitrary: s; simp add: encode_image_lists)+

lemma scan_persons_frame [simp]:
  "known_faces_dir (scan_persons lib ps s) = known_faces_dir s"
  "encodings_file (scan_persons lib ps s) = encodings_file s"
  "fs_files (scan_persons lib ps s) = fs_files s"
  "fs_known_faces (scan_persons lib ps s) = fs_known_faces s"
  "tolerance (scan_persons lib ps s) = tolerance s"
  by (induction lib ps s rule: scan_persons.induct; simp)+

lemma scan_persons_lists:
  "known_face_encodings (scan_persons lib ps s) =
     known_face_encodings s @ map fst (spec_contributions lib (known_faces_dir s) ps)"
  "known_face_names (scan_persons lib ps s) =
     known_face_names s @ map snd (spec_contributions lib (known_faces_dir s) ps)"
  by (induction lib ps s rule: scan_persons.induct;
      simp add: spec_contributions_def spec_person_contribution_def scan_images_lists)+

lemma save_known_faces_fields [simp]:
  "known_faces_dir (save_known_faces lib s) = known_faces_dir s"
  "known_face_encodings (save_known_faces lib s) = known_face_encodings s"
  "known_face_names (save_known_faces lib s) = known_face_names s"
  "encodings_file (save_known_faces lib s) = encodings_file s"
  "fs_known_faces (save_known_faces lib s) = fs_known_faces s"
  "tolerance (save_known_faces lib s) = tolerance s"
  by (simp_all add: save_known_faces_def)

text \<open>
  Claim C5. \<^verbatim>\<open>encode_known_faces\<close> visits the immediate subdirectories of the
  known-faces directory and, in each, the entries whose lowercased suffix is one of .jpg,
  .jpeg, .png, .bmp; each such image appends at most one encoding, the first face the
  encoder finds, with the name of the subdirectory, in listing order; an image without a
  face (or one that cannot be read) adds nothing to either list.
\<close>

theorem encode_known_faces_appends_spec:
  "fs_known_faces s = Some (Dir persons) \<Longrightarrow>
   fst (encode_known_faces lib s) = None \<and>
   known_face_encodings (snd (encode_known_faces lib s)) =
     known_face_encodings s @ map fst (spec_contributions lib (known_faces_dir s) persons) \<and>
   known_face_names (snd (encode_known_faces lib s)) =
     known_face_names s @ map snd (spec_contributions lib (known_faces_dir s) persons)"
  by (simp add: encode_known_faces_def scan_persons_lists)


theorem encode_known_faces_appends_spec_witness:
  "fs_known_faces demo_system = Some (Dir demo_persons) \<and>
   fst (encode_known_faces demo_library demo_system) = None \<and>
   known_face_encodings (snd (encode_known_faces demo_library demo_system)) = [7] \<and>
   known_face_names (snd (encode_known_faces demo_library demo_system)) = [''Jean'']"
proof -
  have h: "fs_known_faces demo_system = Some (Dir demo_persons)"
    by (simp add: demo_system_def new_system_def)
  have c: "spec_contributions demo_library (known_faces_dir demo_system) demo_persons
             = [(7, ''Jean'')]"
    by (simp add: spec_contributions_def spec_person_contribution_def
          spec_image_contribution_def demo_persons_def demo_library_def demo_system_def
          new_system_def is_image_name_def image_extensions_def path_suffix_def
          str_lower_def char_lower_def image_path_str_def Let_def)
  have l: "known_face_encodings demo_system = []" "known_face_names demo_system = []"
    by (simp_all add: demo_system_def new_system_def)
  show ?thesis
    using encode_known_faces_appends_spec [OF h, of demo_library] h
    by (simp add: c l)
qed


subsection \<open>Exceptions inside the scan\<close>

lemma scan_images_append:
  "scan_images lib p (xs @ ys) s = scan_images lib p ys (scan_images lib p xs s)"
  by (induction xs arbitrary: s) simp_all

lemma encode_image_exception:
  "image_exception lib (image_path_str (known_faces_dir s) p name) = Some e \<Longrightarrow>
   encode_image lib p name s = print (MsgImageError name e) s"
  by (auto simp: image_exception_def encode_image_def split: sum.splits)

text \<open>
  Claim C4, as amended. In \<^verbatim>\<open>encode_known_faces\<close> an exception raised while loading or
  encoding an image is caught and printed, the scan continues with the remaining images
  and the encodings appended before the error are kept, so that no exception of the
  library leaves the scan of a directory. Not every error is a printed
  library exception: \<^verbatim>\<open>utils.load_image\<close> raises a \<^verbatim>\<open>ValueError\<close> that it constructs
  itself when \<^verbatim>\<open>cv2.imread\<close> returns \<^verbatim>\<open>None\<close>.
\<close>

theorem encode_known_faces_survives_image_error:
  "is_image_name name \<Longrightarrow>
   image_exception lib (image_path_str (known_faces_dir s) p name) = Some e \<Longrightarrow>
   scan_images lib p (before @ name # after) s =
     scan_images lib p after (print (MsgImageError name e) (scan_images lib p before s)) \<and>
   known_face_encodings (scan_images lib p (before @ name # after) s) =
     known_face_encodings (scan_images lib p before s) @
     map fst (concat (map (spec_image_contribution lib (known_faces_dir s) p)
                        (filter is_image_name after))) \<and>
   known_face_names (scan_images lib p (before @ name # after) s) =
     known_face_names (scan_images lib p before s) @
     map snd (concat (map (spec_image_contribution lib (known_faces_dir s) p)
                        (filter is_image_name after))) \<and>
   (fs_known_faces s = Some (Dir persons) \<longrightarrow> fst (encode_known_faces lib s) = None) \<and>
   (imread image_path = None \<longrightarrow>
      load_image imread image_path =
        Inl (ValueError (''Impossible de charger l'image: '' @ image_path)))"
proof -
  assume img: "is_image_name name"
    and exc: "image_exception lib (image_path_str (known_faces_dir s) p name) = Some e"
  let ?s1 = "scan_images lib p before s"
  have "image_exception lib (image_path_str (known_faces_dir ?s1) p name) = Some e"
    using exc by simp
  then have one: "encode_image lib p name ?s1 = print (MsgImageError name e) ?s1"
    by (rule encode_image_exception)
  have step: "scan_images lib p (before @ name # after) s =
      scan_images lib p after (print (MsgImageError name e) ?s1)"
    using img one by (simp add: scan_images_append)
  show ?thesis
    unfolding step by (simp add: scan_images_lists load_image_def encode_known_faces_def)
qed

theorem encode_known_faces_survives_image_error_witness:
  "is_image_name ''c.bmp'' \<and>
   image_exception demo_library (image_path_str (known_faces_dir demo_system) ''Jean'' ''c.bmp'') =
     Some (LibraryError ''cannot identify image file'') \<and>
   known_face_encodings
     (scan_images demo_library ''Jean'' ([''a.JPG''] @ ''c.bmp'' # [''b.png'']) demo_system) = [7] \<and>
   known_face_names
     (scan_images demo_library ''Jean'' ([''a.JPG''] @ ''c.bmp'' # [''b.png'']) demo_system) = [''Jean''] \<and>
   console
     (scan_images demo_library ''Jean'' ([''a.JPG''] @ ''c.bmp'' # [''b.png'']) demo_system) =
     [MsgImageOk ''a.JPG'', MsgImageError ''c.bmp'' (LibraryError ''cannot identify image file''),
      MsgNoFace ''b.png''] \<and>
   fs_known_faces demo_system = Some (Dir demo_persons) \<and>
   fst (encode_known_faces demo_library demo_system) = None \<and>
   imread_unreadable ''missing.jpg'' = None \<and>
   load_image imread_unreadable ''missing.jpg'' =
     Inl (ValueError ''Impossible de charger l'image: missing.jpg'')"
proof -
  have i: "is_image_name ''c.bmp''" "is_image_name ''a.JPG''" "is_image_name ''b.png''"
    by (simp_all add: is_image_name_def image_extensions_def path_suffix_def
          str_lower_def char_lower_def Let_def)
  have d: "known_faces_dir demo_system = ''known_faces''"
    by (simp add: demo_system_def new_system_def)
  have x: "image_exception demo_library (image_path_str (known_faces_dir demo_system) ''Jean'' ''c.bmp'') =
     Some (LibraryError ''cannot identify image file'')"
    by (simp add: d image_exception_def image_path_str_def demo_library_def)
  have a: "scan_images demo_library ''Jean'' [''a.JPG''] demo_system =
     print (MsgImageOk ''a.JPG'')
       (demo_system\<lparr>known_face_encodings := [7], known_face_names := [''Jean'']\<rparr>)"
    by (simp add: i encode_image_def d image_path_str_def demo_library_def)
       (simp add: demo_system_def new_system_def)
  have b: "\<And>s. known_faces_dir s = ''known_faces'' \<Longrightarrow>
      scan_images demo_library ''Jean'' [''b.png''] s = print (MsgNoFace ''b.png'') s"
    by (simp add: i encode_image_def image_path_str_def demo_library_def)
  have c: "console demo_system = []" by (simp add: demo_system_def new_system_def)
  have t: "scan_images demo_library ''Jean'' ([''a.JPG''] @ ''c.bmp'' # [''b.png'']) demo_system =
     scan_images demo_library ''Jean'' [''b.png'']
       (print (MsgImageError ''c.bmp'' (LibraryError ''cannot identify image file''))
          (scan_images demo_library ''Jean'' [''a.JPG''] demo_system))"
    using encode_known_faces_survives_image_error [OF i(1) x, of "[''a.JPG'']" "[''b.png'']"]
    by (rule conjunct1)
  have r: "imread_unreadable ''missing.jpg'' = None" by (simp add: imread_unreadable_def)
  have u: "load_image imread_unreadable ''missing.jpg'' =
     Inl (ValueError (''Impossible de charger l'image: '' @ ''missing.jpg''))"
    using encode_known_faces_survives_image_error
            [OF i(1) x, where imread = imread_unreadable and image_path = "''missing.jpg''"] r
    by blast
  have k: "fs_known_faces demo_system = Some (Dir demo_persons)"
    by (simp add: demo_system_def new_system_def)
  have n: "fst (encode_known_faces demo_library demo_system) = None"
    using encode_known_faces_survives_image_error [OF i(1) x, where persons = demo_persons] k
    by blast
  have f: "scan_images demo_library ''Jean'' ([''a.JPG''] @ ''c.bmp'' # [''b.png'']) demo_system =
     print (MsgNoFace ''b.png'')
       (print (MsgImageError ''c.bmp'' (LibraryError ''cannot identify image file''))
          (print (MsgImageOk ''a.JPG'')
             (demo_system\<lparr>known_face_encodings := [7], known_face_names := [''Jean'']\<rparr>)))"
    unfolding t a by (rule b) (simp add: d)
  show ?thesis
    unfolding f using i(1) x r u k n by (simp add: c)
qed

text \<open>
  Claim C4 as stated says that no function of the repository raises an exception it
  constructs itself; \<^verbatim>\<open>load_image\<close> does, on a path that \<^verbatim>\<open>cv2.imread\<close> cannot read.
\<close>

theorem load_image_raises_own_exception:
  "load_image imread_unreadable ''missing.jpg'' =
     Inl (ValueError ''Impossible de charger l'image: missing.jpg'')"
  by (simp add: load_image_def imread_unreadable_def)

subsection \<open>The encodings file as a cache\<close>

lemma load_known_faces_present:
  assumes "fs_files s (encodings_file s) = Some bytes"
  shows "load_known_faces lib s =
     (case pickle_load lib bytes of
        Inl e \<Rightarrow> (Some e, print MsgLoadingFile s)
      | Inr data \<Rightarrow>
          (case getitem_encodings data of
             Inl e \<Rightarrow> (Some e, print MsgLoadingFile s)
           | Inr es \<Rightarrow>
               (case getitem_names data of
                  Inl e \<Rightarrow> (Some e, (print MsgLoadingFile s)\<lparr>known_face_encodings := es\<rparr>)
                | Inr ns \<Rightarrow>
                    (None, print (MsgFacesLoaded (length ns))
                       ((print MsgLoadingFile s)\<lparr>known_face_encodings := es,
                                                  known_face_names := ns\<rparr>)))))"
  using assms by (simp add: load_known_faces_def Let_def split: sum.splits)

lemma load_known_faces_absent:
  "fs_files s (encodings_file s) = None \<Longrightarrow>
   load_known_faces lib s = encode_known_faces lib (print MsgCreatingEncodings s)"
  by (simp add: load_known_faces_def)




lemma encode_known_faces_lists:
  "known_face_encodings (snd (encode_known_faces lib s)) =
     known_face_encodings s @ map fst (spec_produced lib s)"
  "known_face_names (snd (encode_known_faces lib s)) =
     known_face_names s @ map snd (spec_produced lib s)"
  by (simp_all add: encode_known_faces_def spec_produced_def scan_persons_lists Let_def
        split: option.splits node.splits)

lemma save_known_faces_file:
  "fs_files (save_known_faces lib s) =
     (if known_face_encodings s = [] then fs_files s
      else (fs_files s)(encodings_file s \<mapsto>
             pickle_dump lib [Encodings (known_face_encodings s), Names (known_face_names s)]))"
  by (simp add: save_known_faces_def)

lemma encode_known_faces_file:
  "fs_files (snd (encode_known_faces lib s)) =
     (case fs_known_faces s of
        Some (Dir persons) \<Rightarrow>
          (if known_face_encodings (snd (encode_known_faces lib s)) = [] then fs_files s
           else (fs_files s)(encodings_file s \<mapsto>
                  pickle_dump lib [Encodings (known_face_encodings (snd (encode_known_faces lib s))),
                                   Names (known_face_names (snd (encode_known_faces lib s)))]))
      | _ \<Rightarrow> fs_files s)"
  by (simp add: encode_known_faces_def save_known_faces_file Let_def
        split: option.splits node.splits)

lemma encode_known_faces_encodings_file [simp]:
  "encodings_file (snd (encode_known_faces lib s)) = encodings_file s"
  by (simp add: encode_known_faces_def Let_def split: option.splits node.splits)

text \<open>A missing \<open>known_faces_dir\<close> whose \<^verbatim>\<open>mkdir\<close> raises, as for \<^verbatim>\<open>'a/b'\<close> without the
  directory \<^verbatim>\<open>a\<close>: the exception leaves \<^verbatim>\<open>__init__\<close> when there is no encodings file.\<close>

lemma init_mkdir_error:
  "files ''face_encodings.pkl'' = None \<Longrightarrow>
   fst (init lib dir tol files None (Some e)) = Some e"
  by (simp add: init_def new_system_def load_known_faces_def encode_known_faces_def Let_def
        print_def)






subsection \<open>The two parallel lists\<close>

lemma encode_known_faces_lengths:
  "length (known_face_encodings s) = length (known_face_names s) \<Longrightarrow>
   length (known_face_encodings (snd (encode_known_faces lib s))) =
   length (known_face_names (snd (encode_known_faces lib s)))"
  by (simp add: encode_known_faces_lists)

lemma new_system_fields:
  "known_face_encodings (new_system dir tol files tree mkdir_error) = []"
  "known_face_names (new_system dir tol files tree mkdir_error) = []"
  "encodings_file (new_system dir tol files tree mkdir_error) = ''face_encodings.pkl''"
  "fs_files (new_system dir tol files tree mkdir_error) = files"
  "fs_known_faces (new_system dir tol files tree mkdir_error) = tree"
  by (simp_all add: new_system_def)

text \<open>
  Claim C2, as amended. \<^verbatim>\<open>__init__\<close> starts from two empty lists. \<^verbatim>\<open>encode_known_faces\<close>, and
  \<^verbatim>\<open>load_known_faces\<close> and the initialisation when there is no encodings file, leave
  \<^verbatim>\<open>known_face_encodings\<close> and \<^verbatim>\<open>known_face_names\<close> of equal length if they were so before.
  When the encodings file exists and holds the two keys, \<^verbatim>\<open>load_known_faces\<close> and the
  initialisation install the two stored lists as they are, whatever their lengths, so that
  the two lists then have equal length exactly when the stored ones have. The only write
  of \<^verbatim>\<open>encode_known_faces\<close> is the dict with exactly the keys \<^verbatim>\<open>'encodings'\<close> and \<^verbatim>\<open>'names'\<close>
  holding the two lists of the object, and \<^verbatim>\<open>save_encodings\<close> writes the dict with exactly
  these two keys holding the two lists it is given, whatever their lengths.
\<close>

theorem registry_lists_parallel:
  "known_face_encodings (new_system dir tol files tree mkdir_error :: ('e, 'b) system) = [] \<and>
   known_face_names (new_system dir tol files tree mkdir_error :: ('e, 'b) system) = [] \<and>
   (length (known_face_encodings s) = length (known_face_names s) \<longrightarrow>
      length (known_face_encodings (snd (encode_known_faces (lib :: ('e, 'i, 'b) library) s))) =
      length (known_face_names (snd (encode_known_faces lib s)))) \<and>
   (length (known_face_encodings s) = length (known_face_names s) \<longrightarrow>
    fs_files s (encodings_file s) = None \<longrightarrow>
      length (known_face_encodings (snd (load_known_faces lib s))) =
      length (known_face_names (snd (load_known_faces lib s)))) \<and>
   (files ''face_encodings.pkl'' = None \<longrightarrow>
      length (known_face_encodings (snd (init lib dir tol files tree mkdir_error))) =
      length (known_face_names (snd (init lib dir tol files tree mkdir_error)))) \<and>
   (fs_files s (encodings_file s) = Some bytes \<longrightarrow> pickle_load lib bytes = Inr data \<longrightarrow>
    getitem_encodings data = Inr es \<longrightarrow> getitem_names data = Inr ns \<longrightarrow>
      fst (load_known_faces lib s) = None \<and>
      known_face_encodings (snd (load_known_faces lib s)) = es \<and>
      known_face_names (snd (load_known_faces lib s)) = ns \<and>
      (length (known_face_encodings (snd (load_known_faces lib s))) =
       length (known_face_names (snd (load_known_faces lib s)))) = (length es = length ns)) \<and>
   (files ''face_encodings.pkl'' = Some bytes \<longrightarrow> pickle_load lib bytes = Inr data \<longrightarrow>
    getitem_encodings data = Inr es \<longrightarrow> getitem_names data = Inr ns \<longrightarrow>
      fst (init lib dir tol files tree mkdir_error) = None \<and>
      known_face_encodings (snd (init lib dir tol files tree mkdir_error)) = es \<and>
      known_face_names (snd (init lib dir tol files tree mkdir_error)) = ns) \<and>
   (fs_files (snd (encode_known_faces lib s)) = fs_files s \<or>
    fs_files (snd (encode_known_faces lib s)) =
      (fs_files s)(encodings_file s \<mapsto>
         pickle_dump lib [Encodings (known_face_encodings (snd (encode_known_faces lib s))),
                          Names (known_face_names (snd (encode_known_faces lib s)))])) \<and>
   (open_wb filename = None \<longrightarrow>
      save_encodings lib open_wb encodings names filename files' =
        Inr (files'(filename \<mapsto> pickle_dump lib [Encodings encodings, Names names])))"
proof (intro conjI impI)
  show "known_face_encodings (new_system dir tol files tree mkdir_error :: ('e, 'b) system) = []"
    and "known_face_names (new_system dir tol files tree mkdir_error :: ('e, 'b) system) = []"
    by (simp_all add: new_system_def)
next
  assume "length (known_face_encodings s) = length (known_face_names s)"
  then show "length (known_face_encodings (snd (encode_known_faces lib s))) =
      length (known_face_names (snd (encode_known_faces lib s)))"
    by (rule encode_known_faces_lengths)
next
  assume eq: "length (known_face_encodings s) = length (known_face_names s)"
    and a: "fs_files s (encodings_file s) = None"
  have "length (known_face_encodings (print MsgCreatingEncodings s)) =
        length (known_face_names (print MsgCreatingEncodings s))"
    using eq by simp
  then show "length (known_face_encodings (snd (load_known_faces lib s))) =
      length (known_face_names (snd (load_known_faces lib s)))"
    unfolding load_known_faces_absent [OF a] by (rule encode_known_faces_lengths)
next
  let ?n = "new_system dir tol files tree mkdir_error :: ('e, 'b) system"
  assume "files ''face_encodings.pkl'' = None"
  then have a: "fs_files ?n (encodings_file ?n) = None" by (simp add: new_system_fields)
  have l: "init lib dir tol files tree mkdir_error = encode_known_faces lib (print MsgCreatingEncodings ?n)"
    unfolding init_def by (rule load_known_faces_absent [OF a])
  have "length (known_face_encodings (print MsgCreatingEncodings ?n)) =
        length (known_face_names (print MsgCreatingEncodings ?n))"
    by (simp add: new_system_fields)
  then show "length (known_face_encodings (snd (init lib dir tol files tree mkdir_error))) =
      length (known_face_names (snd (init lib dir tol files tree mkdir_error)))"
    unfolding l by (rule encode_known_faces_lengths)
next
  assume p: "fs_files s (encodings_file s) = Some bytes"
    and d: "pickle_load lib bytes = Inr data" "getitem_encodings data = Inr es"
      "getitem_names data = Inr ns"
  have r: "fst (load_known_faces lib s) = None \<and>
      known_face_encodings (snd (load_known_faces lib s)) = es \<and>
      known_face_names (snd (load_known_faces lib s)) = ns"
    unfolding load_known_faces_present [OF p] using d by simp
  from r show "fst (load_known_faces lib s) = None"
    and "known_face_encodings (snd (load_known_faces lib s)) = es"
    and "known_face_names (snd (load_known_faces lib s)) = ns"
    by simp_all
  from r show "(length (known_face_encodings (snd (load_known_faces lib s))) =
       length (known_face_names (snd (load_known_faces lib s)))) = (length es = length ns)"
    by simp
next
  let ?n = "new_system dir tol files tree mkdir_error :: ('e, 'b) system"
  assume "files ''face_encodings.pkl'' = Some bytes"
    and d: "pickle_load lib bytes = Inr data" "getitem_encodings data = Inr es"
      "getitem_names data = Inr ns"
  then have p: "fs_files ?n (encodings_file ?n) = Some bytes" by (simp add: new_system_fields)
  have r: "fst (init lib dir tol files tree mkdir_error) = None \<and>
      known_face_encodings (snd (init lib dir tol files tree mkdir_error)) = es \<and>
      known_face_names (snd (init lib dir tol files tree mkdir_error)) = ns"
    unfolding init_def load_known_faces_present [OF p] using d by simp
  from r show "fst (init lib dir tol files tree mkdir_error) = None"
    and "known_face_encodings (snd (init lib dir tol files tree mkdir_error)) = es"
    and "known_face_names (snd (init lib dir tol files tree mkdir_error)) = ns"
    by simp_all
next
  show "fs_files (snd (encode_known_faces lib s)) = fs_files s \<or>
    fs_files (snd (encode_known_faces lib s)) =
      (fs_files s)(encodings_file s \<mapsto>
         pickle_dump lib [Encodings (known_face_encodings (snd (encode_known_faces lib s))),
                          Names (known_face_names (snd (encode_known_faces lib s)))])"
    by (simp add: encode_known_faces_file split: option.splits node.splits)
next
  assume "open_wb filename = None"
  then show "save_encodings lib open_wb encodings names filename files' =
        Inr (files'(filename \<mapsto> pickle_dump lib [Encodings encodings, Names names]))"
    by (simp add: save_encodings_def)
qed

theorem registry_lists_parallel_witness:
  "length (known_face_encodings demo_system) = length (known_face_names demo_system) \<and>
   length (known_face_encodings (snd (encode_known_faces demo_library demo_system))) =
     length (known_face_names (snd (encode_known_faces demo_library demo_system))) \<and>
   fs_files demo_system (encodings_file demo_system) = None \<and>
   length (known_face_encodings (snd (load_known_faces demo_library demo_system))) =
     length (known_face_names (snd (load_known_faces demo_library demo_system))) \<and>
   no_files ''face_encodings.pkl'' = None \<and>
   length (known_face_encodings
             (snd (init demo_library ''known_faces'' (6 / 10) no_files
                     (Some (Dir demo_persons)) None))) =
     length (known_face_names
               (snd (init demo_library ''known_faces'' (6 / 10) no_files
                       (Some (Dir demo_persons)) None))) \<and>
   fs_files demo_cached_system (encodings_file demo_cached_system) =
     Some [Encodings [5], Names [''Zoe'']] \<and>
   fst (load_known_faces demo_library demo_cached_system) = None \<and>
   known_face_encodings (snd (load_known_faces demo_library demo_cached_system)) = [5] \<and>
   known_face_names (snd (load_known_faces demo_library demo_cached_system)) = [''Zoe''] \<and>
   demo_bad_files ''face_encodings.pkl'' = Some [Encodings [7], Names []] \<and>
   fst (init demo_library ''known_faces'' (6 / 10) demo_bad_files None None) = None \<and>
   known_face_encodings (snd (init demo_library ''known_faces'' (6 / 10) demo_bad_files None None))
     = [7] \<and>
   known_face_names (snd (init demo_library ''known_faces'' (6 / 10) demo_bad_files None None))
     = [] \<and>
   demo_open ''faces.pkl'' = None \<and>
   save_encodings demo_library demo_open [7] [''Jean''] ''faces.pkl'' no_files =
     Inr (no_files(''faces.pkl'' \<mapsto> pickle_dump demo_library [Encodings [7], Names [''Jean'']]))"
proof -
  have h0: "length (known_face_encodings demo_system) = length (known_face_names demo_system)"
    "fs_files demo_system (encodings_file demo_system) = None"
    by (simp_all add: demo_system_def new_system_def)
  have h1: "fs_files demo_cached_system (encodings_file demo_cached_system) =
     Some [Encodings [5], Names [''Zoe'']]"
    by (simp add: demo_cached_system_def new_system_def demo_files_def)
  have nf: "no_files ''face_encodings.pkl'' = None" by (simp add: no_files_def)
  have bf: "demo_bad_files ''face_encodings.pkl'' = Some [Encodings [7], Names []]"
    by (simp add: demo_bad_files_def)
  have w: "demo_open ''faces.pkl'' = None" by (simp add: demo_open_def)
  have p1: "pickle_load demo_library [Encodings [5], Names [''Zoe'']] =
     Inr [Encodings [5], Names [''Zoe'']]"
    "pickle_load demo_library [Encodings [7], Names []] = Inr [Encodings [7], Names []]"
    by (simp_all add: demo_library_def)
  have g: "getitem_encodings [Encodings [5], Names [''Zoe'']] = Inr [5::nat]"
    "getitem_names [Encodings [5::nat], Names [''Zoe'']] = Inr [''Zoe'']"
    "getitem_encodings [Encodings [7], Names []] = Inr [7::nat]"
    "getitem_names [Encodings [7::nat], Names []] = Inr []"
    by simp_all
  have a: "length (known_face_encodings (snd (encode_known_faces demo_library demo_system))) =
     length (known_face_names (snd (encode_known_faces demo_library demo_system))) \<and>
     length (known_face_encodings (snd (load_known_faces demo_library demo_system))) =
     length (known_face_names (snd (load_known_faces demo_library demo_system))) \<and>
     length (known_face_encodings
             (snd (init demo_library ''known_faces'' (6 / 10) no_files
                     (Some (Dir demo_persons)) None))) =
     length (known_face_names
               (snd (init demo_library ''known_faces'' (6 / 10) no_files
                       (Some (Dir demo_persons)) None))) \<and>
     save_encodings demo_library demo_open [7] [''Jean''] ''faces.pkl'' no_files =
     Inr (no_files(''faces.pkl'' \<mapsto> pickle_dump demo_library [Encodings [7], Names [''Jean'']]))"
    using registry_lists_parallel [where s = demo_system and lib = demo_library
        and open_wb = demo_open and filename = "''faces.pkl''"
        and encodings = "[7]" and names = "[''Jean'']" and files' = no_files
        and dir = "''known_faces''" and tol = "6 / 10" and files = no_files
        and tree = "Some (Dir demo_persons)" and mkdir_error = None
        and bytes = "[]" and data = "[]" and es = "[]" and ns = "[]"] h0 w nf
    by blast
  have b: "fst (load_known_faces demo_library demo_cached_system) = None \<and>
    known_face_encodings (snd (load_known_faces demo_library demo_cached_system)) = [5] \<and>
    known_face_names (snd (load_known_faces demo_library demo_cached_system)) = [''Zoe'']"
    using registry_lists_parallel [where s = demo_cached_system and lib = demo_library
        and bytes = "[Encodings [5], Names [''Zoe'']]"
        and data = "[Encodings [5], Names [''Zoe'']]" and es = "[5]" and ns = "[''Zoe'']"
        and dir = "''known_faces''" and tol = "6 / 10" and files = no_files and tree = None and mkdir_error = None
        and open_wb = demo_open and filename = "''faces.pkl''"
        and encodings = "[7]" and names = "[''Jean'']" and files' = no_files] h1 p1(1) g(1,2)
    by blast
  have c: "fst (init demo_library ''known_faces'' (6 / 10) demo_bad_files None None) = None \<and>
    known_face_encodings (snd (init demo_library ''known_faces'' (6 / 10) demo_bad_files None None))
      = [7] \<and>
    known_face_names (snd (init demo_library ''known_faces'' (6 / 10) demo_bad_files None None))
      = []"
    using registry_lists_parallel [where s = demo_system and lib = demo_library
        and bytes = "[Encodings [7], Names []]"
        and data = "[Encodings [7], Names []]" and es = "[7]" and ns = "[]"
        and dir = "''known_faces''" and tol = "6 / 10" and files = demo_bad_files
        and tree = None and mkdir_error = None
        and open_wb = demo_open and filename = "''faces.pkl''"
        and encodings = "[7]" and names = "[''Jean'']" and files' = no_files] bf p1(2) g(3,4)
    by blast
  show ?thesis using h0 h1 nf bf w a b c by blast
qed

text \<open>
  Claim C2 as stated fails: \<^verbatim>\<open>save_encodings\<close> writes one encoding and no name when it
  is given them, and an object initialised from that file has lists of lengths 1 and 0.
\<close>

theorem registry_lists_parallel_counterexample:
  "save_encodings demo_library demo_open [7] [] ''face_encodings.pkl'' no_files =
     Inr demo_bad_files \<and>
   fst (init demo_library ''known_faces'' (6 / 10) demo_bad_files None None) = None \<and>
   length (known_face_encodings
             (snd (init demo_library ''known_faces'' (6 / 10) demo_bad_files None None))) = 1 \<and>
   length (known_face_names
             (snd (init demo_library ''known_faces'' (6 / 10) demo_bad_files None None))) = 0"
  by (simp add: save_encodings_def demo_open_def demo_bad_files_def demo_library_def
        init_def new_system_def load_known_faces_def no_files_def Let_def)

subsection \<open>save\_encodings and load\_encodings\<close>




subsection \<open>The labels of recognize\_faces\_in\_frame\<close>

lemma np_argmin_first:
  assumes "ds \<noteq> []"
  shows "\<exists>i. np_argmin ds = Inr i \<and> first_argmin ds i"
proof -
  let ?m = "Min (set ds)"
  let ?i = "length (takeWhile (\<lambda>d. d \<noteq> ?m) ds)"
  have m_in: "?m \<in> set ds" using assms by (simp add: Min_in)
  have "takeWhile (\<lambda>d. d \<noteq> ?m) ds \<noteq> ds"
    using m_in by (auto simp: takeWhile_eq_all_conv)
  then have "?i \<noteq> length ds" by (metis takeWhile_eq_take take_all_iff length_takeWhile_le le_antisym order_refl)
  then have lt: "?i < length ds" using length_takeWhile_le [of "\<lambda>d. d \<noteq> ?m" ds] by linarith
  have at: "ds ! ?i = ?m" using nth_length_takeWhile [OF lt] by simp
  have le: "\<forall>j < length ds. ds ! ?i \<le> ds ! j" unfolding at by simp
  have before: "\<forall>j < ?i. ds ! ?i < ds ! j"
  proof (intro allI impI)
    fix j assume j: "j < ?i"
    then have "takeWhile (\<lambda>d. d \<noteq> ?m) ds ! j \<in> set (takeWhile (\<lambda>d. d \<noteq> ?m) ds)"
      by (rule nth_mem)
    then have "ds ! j \<in> set (takeWhile (\<lambda>d. d \<noteq> ?m) ds)"
      using takeWhile_nth [OF j] by simp
    then have ne: "ds ! j \<noteq> ?m" by (auto dest: set_takeWhileD)
    have "j < length ds" using j lt by linarith
    then have "?m \<le> ds ! j" by simp
    then show "ds ! ?i < ds ! j" unfolding at using ne by linarith
  qed
  show ?thesis
    using assms lt le before by (simp add: np_argmin_def first_argmin_def)
qed

lemma label_face_spec:
  assumes ne: "known_face_encodings s \<noteq> []"
    and agrees: "library_agrees lib s enc"
    and names: "length (known_face_names s) = length (known_face_encodings s)"
  shows "\<exists>name. label_face lib s enc = Inr name \<and> labelled_as_specified lib s enc name"
proof -
  let ?ds = "face_distance lib (known_face_encodings s) enc"
  let ?ms = "compare_faces lib (known_face_encodings s) enc (tolerance s)"
  have lens: "length ?ds = length (known_face_encodings s)"
    "length ?ms = length (known_face_encodings s)"
    using agrees by (simp_all add: library_agrees_def)
  then have "?ds \<noteq> []" using ne by auto
  from np_argmin_first [OF this] obtain best
    where am: "np_argmin ?ds = Inr best" and fa: "first_argmin ?ds best" by blast
  from fa have b: "best < length ?ds" by (simp add: first_argmin_def)
  have "label_face lib s enc = Inr (spec_label lib s enc best)"
    using ne am b lens names by (simp add: label_face_def spec_label_def py_index_def Let_def)
  then show ?thesis using fa by (auto simp: labelled_as_specified_def)
qed

lemma label_faces_spec:
  assumes ne: "known_face_encodings s \<noteq> []"
    and names: "length (known_face_names s) = length (known_face_encodings s)"
  shows "(\<forall>enc \<in> set encs. library_agrees lib s enc) \<Longrightarrow>
    \<exists>face_names. label_faces lib s encs = Inr face_names \<and>
       list_all2 (labelled_as_specified lib s) encs face_names"
proof (induction encs)
  case Nil
  then show ?case by simp
next
  case (Cons enc rest)
  from Cons.prems have "library_agrees lib s enc" by simp
  from label_face_spec [OF ne this names] obtain name
    where n: "label_face lib s enc = Inr name" "labelled_as_specified lib s enc name" by blast
  from Cons.prems have "\<forall>enc \<in> set rest. library_agrees lib s enc" by simp
  from Cons.IH [OF this] obtain face_names
    where r: "label_faces lib s rest = Inr face_names"
      "list_all2 (labelled_as_specified lib s) rest face_names" by blast
  show ?case using n r by simp
qed

text \<open>
  Claim C1, as amended. When the registry is not empty, its two lists have the same
  length and the library returns one match flag and one distance per known encoding, every
  detected face encoding gets one label, decided by the library's results alone: the known
  name at the first index of minimal \<^verbatim>\<open>face_distance\<close> followed by \<^verbatim>\<open>" (c%)"\<close>, where \<open>c\<close>
  is \<open>(1 - distance) * 100\<close> formatted with one decimal, if \<^verbatim>\<open>compare_faces\<close> with the
  configured tolerance marks that index as a match, and "Inconnu" otherwise; the returned
  list has exactly one entry per detected face encoding.
\<close>

theorem recognize_faces_labels:
  "known_face_encodings s \<noteq> [] \<Longrightarrow>
   length (known_face_names s) = length (known_face_encodings s) \<Longrightarrow>
   (\<forall>enc \<in> set (detect_encodings lib frame). library_agrees lib s enc) \<Longrightarrow>
   \<exists>face_names. recognize_faces_in_frame lib s frame = Inr face_names \<and>
     length face_names = length (detect_encodings lib frame) \<and>
     list_all2 (labelled_as_specified lib s) (detect_encodings lib frame) face_names"
proof -
  assume ne: "known_face_encodings s \<noteq> []"
    and names: "length (known_face_names s) = length (known_face_encodings s)"
    and agrees: "\<forall>enc \<in> set (detect_encodings lib frame). library_agrees lib s enc"
  from label_faces_spec [OF ne names agrees] obtain face_names
    where r: "label_faces lib s (detect_encodings lib frame) = Inr face_names"
      "list_all2 (labelled_as_specified lib s) (detect_encodings lib frame) face_names"
    by blast
  from r(2) have "length face_names = length (detect_encodings lib frame)"
    by (simp add: list_all2_lengthD)
  then show ?thesis using r by (simp add: recognize_faces_in_frame_def)
qed

lemma demo_registry_fields:
  "known_face_encodings demo_registry = [2, 9]"
  "known_face_names demo_registry = [''Jean'', ''Marie'']"
  "tolerance demo_registry = 6 / 10"
  by (simp_all add: demo_registry_def new_system_def)

lemma demo_recognize:
  "recognize_faces_in_frame demo_recognizer demo_registry [6, 20] = Inr [''Marie (70.0%)'', ''Inconnu'']"
  by (simp add: recognize_faces_in_frame_def label_face_def demo_recognizer_def
        demo_registry_fields np_argmin_def py_index_def Let_def)

theorem recognize_faces_labels_witness:
  "known_face_encodings demo_registry \<noteq> [] \<and>
   length (known_face_names demo_registry) = length (known_face_encodings demo_registry) \<and>
   library_agrees demo_recognizer demo_registry 6 \<and>
   library_agrees demo_recognizer demo_registry 20 \<and>
   recognize_faces_in_frame demo_recognizer demo_registry [6, 20] =
     Inr [''Marie (70.0%)'', ''Inconnu''] \<and>
   list_all2 (labelled_as_specified demo_recognizer demo_registry) [6, 20]
     [''Marie (70.0%)'', ''Inconnu'']"
proof -
  have h1: "known_face_encodings demo_registry \<noteq> []"
    and h2: "length (known_face_names demo_registry) = length (known_face_encodings demo_registry)"
    by (simp_all add: demo_registry_fields)
  have d: "detect_encodings demo_recognizer [6, 20] = [6, 20]"
    by (simp add: demo_recognizer_def)
  have a: "library_agrees demo_recognizer demo_registry 6"
    "library_agrees demo_recognizer demo_registry 20"
    by (simp_all add: library_agrees_def demo_recognizer_def)
  then have h3: "\<forall>enc \<in> set (detect_encodings demo_recognizer [6, 20]).
      library_agrees demo_recognizer demo_registry enc"
    by (simp add: d)
  show ?thesis
    using recognize_faces_labels [OF h1 h2 h3] h1 h2 a demo_recognize by (auto simp: d)
qed

text \<open>
  Claim C1 as stated says that a matched face is labelled with the known name: the label
  of a face that matches Marie is her name followed by the confidence.
\<close>

theorem recognize_faces_label_counterexample:
  "known_face_encodings demo_registry \<noteq> [] \<and>
   np_argmin (face_distance demo_recognizer (known_face_encodings demo_registry) 6) = Inr 1 \<and>
   compare_faces demo_recognizer (known_face_encodings demo_registry) 6
     (tolerance demo_registry) ! 1 \<and>
   known_face_names demo_registry ! 1 = ''Marie'' \<and>
   recognize_faces_in_frame demo_recognizer demo_registry [6] = Inr [''Marie (70.0%)''] \<and>
   recognize_faces_in_frame demo_recognizer demo_registry [6] \<noteq> Inr [''Marie'']"
  by (simp add: recognize_faces_in_frame_def label_face_def demo_recognizer_def
        demo_registry_fields np_argmin_def py_index_def Let_def)

subsection \<open>add\_from\_file\<close>








subsection \<open>resize\_image\<close>

text \<open>In the exact arithmetic of the model, an image that fits is returned as it is, and
  an image that is returned after a resize is within the two maxima.\<close>

lemma resize_image_fits:
  assumes w: "0 < img_width img" and h: "0 < img_height img"
    and mw: "int (img_width img) \<le> max_width" and mh: "int (img_height img) \<le> max_height"
  shows "resize_image interpolate img max_width max_height = Inr img"
proof -
  have "(of_int (int (img_width img)) :: rat) \<le> of_int max_width"
    using mw by (simp only: of_int_le_iff)
  then have 1: "(1::rat) \<le> of_int max_width / of_nat (img_width img)"
    using w by (simp add: field_simps)
  have "(of_int (int (img_height img)) :: rat) \<le> of_int max_height"
    using mh by (simp only: of_int_le_iff)
  then have 2: "(1::rat) \<le> of_int max_height / of_nat (img_height img)"
    using h by (simp add: field_simps)
  from 1 2 have "\<not> min (of_int max_width / of_nat (img_width img) :: rat)
                     (of_int max_height / of_nat (img_height img)) < 1" by simp
  then show ?thesis using w h by (simp add: resize_image_def Let_def)
qed

lemma py_int_le: "q \<le> of_int m \<Longrightarrow> py_int q \<le> m"
  by (auto simp: py_int_def floor_le_iff ceiling_le_iff intro: order_trans [OF of_int_floor_le])

lemma resize_image_within:
  assumes r: "resize_image interpolate img max_width max_height = Inr out"
    and big: "max_width < int (img_width img) \<or> max_height < int (img_height img)"
  shows "int (img_width out) \<le> max_width \<and> int (img_height out) \<le> max_height"
proof -
  let ?w = "img_width img" and ?h = "img_height img"
  let ?ratio = "min (of_int max_width / of_nat ?w :: rat) (of_int max_height / of_nat ?h)"
  from r have pos: "0 < ?w" "0 < ?h"
    by (auto simp: resize_image_def Let_def split: if_splits)
  have lt: "?ratio < 1"
  proof -
    from big show ?thesis
    proof
      assume "max_width < int ?w"
      then have "(of_int max_width :: rat) < of_int (int ?w)" by (simp only: of_int_less_iff)
      then have "(of_int max_width :: rat) / of_nat ?w < 1" using pos by (simp add: field_simps)
      then show ?thesis by (simp add: min_less_iff_disj)
    next
      assume "max_height < int ?h"
      then have "(of_int max_height :: rat) < of_int (int ?h)" by (simp only: of_int_less_iff)
      then have "(of_int max_height :: rat) / of_nat ?h < 1" using pos by (simp add: field_simps)
      then show ?thesis by (simp add: min_less_iff_disj)
    qed
  qed
  let ?nw = "py_int (of_nat ?w * ?ratio)" and ?nh = "py_int (of_nat ?h * ?ratio)"
  from r pos lt have cv: "cv2_resize interpolate img (?nw, ?nh) = Inr out"
    by (simp add: resize_image_def Let_def)
  then have dims: "0 < ?nw" "0 < ?nh" "img_width out = nat ?nw" "img_height out = nat ?nh"
    by (auto simp: cv2_resize_def split: if_splits)
  have "of_nat ?w * ?ratio \<le> of_nat ?w * (of_int max_width / of_nat ?w)"
    using pos by (intro mult_left_mono) simp_all
  then have "of_nat ?w * ?ratio \<le> (of_int max_width :: rat)" using pos by simp
  then have a: "?nw \<le> max_width" by (rule py_int_le)
  have "of_nat ?h * ?ratio \<le> of_nat ?h * (of_int max_height / of_nat ?h)"
    using pos by (intro mult_left_mono) simp_all
  then have "of_nat ?h * ?ratio \<le> (of_int max_height :: rat)" using pos by simp
  then have b: "?nh \<le> max_height" by (rule py_int_le)
  show ?thesis using a b dims by simp
qed

text \<open>
  Claim C8 says that every image larger than the maxima is returned resized to
  \<open>floor (width * r)\<close> by \<open>floor (height * r)\<close>. For an image 1600 wide and 1 high and the
  default maxima 800 and 600, \<open>r = 1/2\<close> (exact in double precision) and the new height is
  \<open>int(0.5) = 0\<close>: \<^verbatim>\<open>cv2.resize\<close> raises and no image is returned.
\<close>

theorem resize_image_thin_image_raises:
  "max (img_width thin_image) (img_height thin_image) > 800 \<and>
   resize_image demo_interpolate thin_image 800 600 = Inl Cv2Error"
  by (simp add: resize_image_def cv2_resize_def py_int_def thin_image_def Let_def)

end
